theory Spec2Isabelle
  imports Main
begin

section \<open>Python exceptions\<close>

text \<open>
  A raised exception is a value; every fallible operation returns \<open>exn + 'a\<close> with
  \<open>Inl\<close> for the raise.  A constructor stands for the instances of the class of that
  name, subclasses included, as an \<^verbatim>\<open>except\<close> clause sees them.
  \<open>NotImplementedError\<close>, \<open>NameError\<close> and \<open>KeyError\<close> are the builtins raised by
  \<^verbatim>\<open>idp.py\<close> and \<^verbatim>\<open>views.py\<close> themselves; \<open>HTTPFoundRaised\<close> is pyramid's redirect
  when it is raised instead of returned; \<open>UnsupportedAttribute\<close> is the error class of that
  name, which neither \<^verbatim>\<open>idp.py\<close> nor \<^verbatim>\<open>views.py\<close> imports or raises;
  \<open>OtherException cls msg\<close> is any other class.
\<close>

datatype exn =
    CannotHandleAssertion string
  | ValueError string
  | NotImplementedError string
  | NameError string
  | KeyError string
  | HTTPFoundRaised string
  | is_UnsupportedAttribute: UnsupportedAttribute string
  | OtherException string string

text \<open>The clause \<^verbatim>\<open>except (CannotHandleAssertion, ValueError)\<close> of \<^verbatim>\<open>login_process\<close>.\<close>

fun caught :: "exn \<Rightarrow> bool" where
  "caught (CannotHandleAssertion _) = True"
| "caught (ValueError _) = True"
| "caught _ = False"

definition raises :: "(exn \<Rightarrow> bool) \<Rightarrow> exn + 'a \<Rightarrow> bool" where
  "raises P r = (case r of Inl e \<Rightarrow> P e | Inr _ \<Rightarrow> False)"


section \<open>The identity provider (\<^verbatim>\<open>idp/idp.py\<close>)\<close>

subsection \<open>Configuration\<close>

text \<open>
  The \<^verbatim>\<open>SAML2_IDP\<close> settings dict.  It is only read with \<^verbatim>\<open>.get\<close>, which gives
  \<^verbatim>\<open>None\<close> for an absent key and for a key bound to \<^verbatim>\<open>None\<close> alike, so each entry is
  an option.  Certificates and keys are opaque handles.
\<close>

record ('cert, 'key) idp_config =
  certificate :: "'cert option"
  private_key :: "'key option"
  autosubmit :: "bool option"

text \<open>The class attribute \<^verbatim>\<open>idp_signer_class = RsaSha1Signer\<close>: a signer bound to a key.\<close>

datatype 'key signer = RsaSha1Signer 'key

subsection \<open>Service provider handlers\<close>

text \<open>
  \<^verbatim>\<open>SPHandler\<close> is supplied from outside these files; a handler is the record of the four
  methods the identity provider and the views call on it.  \<open>'q\<close> is the parsed
  AuthnRequest, \<open>'p\<close> the response, \<open>'v\<close> the values of the response context dict.
\<close>

record ('q, 'p, 'v) sp_handler =
  parse_authn_request :: "string \<Rightarrow> exn + 'q"
  make_response :: "'q \<Rightarrow> exn + 'p"
  get_response_context :: "'q \<Rightarrow> 'p \<Rightarrow> string \<Rightarrow> exn + (string \<rightharpoonup> 'v)"
  handler_is_valid_redirect :: "string \<Rightarrow> exn + bool"

text \<open>One entry of \<^verbatim>\<open>SAML2_SERVICE_PROVIDERS\<close>: \<^verbatim>\<open>{'CLASS': ..., 'OPTIONS': {...}}\<close>.\<close>

record 'ov sp_config =
  CLASS :: "string option"
  OPTIONS :: "(string \<rightharpoonup> 'ov) option"

type_synonym session = "string \<rightharpoonup> string"

text \<open>
  What the views and the host read of a pyramid request: the parameters, the session, the
  URL of the request (\<^verbatim>\<open>request.url\<close>), and \<^verbatim>\<open>route_url(name, _query=...)\<close>, the URL of a named route
  with a query (a list of pairs, empty when the call gives none).
\<close>

record request =
  params :: "string \<rightharpoonup> string"
  session :: session
  request_url :: string
  route_url :: "string \<Rightarrow> (string \<times> string) list \<Rightarrow> string"

text \<open>
  An \<^verbatim>\<open>IdentityProvider\<close> subclass instance: the two settings it reads, the class
  loader \<^verbatim>\<open>import_string\<close> (a class is its constructor, applied to the options), and the
  methods the host application must supply (\<^verbatim>\<open>login_required\<close> returns or raises,
  \<^verbatim>\<open>logout\<close> updates the session or raises).
\<close>

record ('cert, 'key, 'ov, 'q, 'p, 'v) identity_provider =
  SAML2_IDP :: "('cert, 'key) idp_config"
  SAML2_SERVICE_PROVIDERS :: "'ov sp_config list"
  import_string :: "string \<Rightarrow> exn + ((string \<rightharpoonup> 'ov) \<Rightarrow> exn + ('q, 'p, 'v) sp_handler)"
  login_required :: "request \<Rightarrow> exn option"
  idp_logout :: "request \<Rightarrow> exn + session"

definition get_idp_config ::
  "('cert, 'key, 'ov, 'q, 'p, 'v) identity_provider \<Rightarrow> ('cert, 'key) idp_config" where
  "get_idp_config idp = SAML2_IDP idp"

definition get_idp_certificate ::
  "('cert, 'key, 'ov, 'q, 'p, 'v) identity_provider \<Rightarrow> 'cert option" where
  "get_idp_certificate idp = certificate (get_idp_config idp)"

definition get_idp_private_key ::
  "('cert, 'key, 'ov, 'q, 'p, 'v) identity_provider \<Rightarrow> 'key option" where
  "get_idp_private_key idp = private_key (get_idp_config idp)"

definition should_sign_responses ::
  "('cert, 'key, 'ov, 'q, 'p, 'v) identity_provider \<Rightarrow> bool" where
  "should_sign_responses idp =
     (get_idp_certificate idp \<noteq> None \<and> get_idp_private_key idp \<noteq> None)"

text \<open>A Python function that falls off its end returns \<^verbatim>\<open>None\<close>.\<close>

definition get_idp_signer ::
  "('cert, 'key, 'ov, 'q, 'p, 'v) identity_provider \<Rightarrow> 'key signer option" where
  "get_idp_signer idp =
     (case get_idp_private_key idp of
        Some pkey \<Rightarrow> Some (RsaSha1Signer pkey)
      | None \<Rightarrow> None)"

definition get_service_providers ::
  "('cert, 'key, 'ov, 'q, 'p, 'v) identity_provider \<Rightarrow> 'ov sp_config list" where
  "get_service_providers idp = SAML2_SERVICE_PROVIDERS idp"

subsection \<open>Users\<close>

text \<open>The user objects of \<^verbatim>\<open>examples/idp.py\<close>.\<close>

record user =
  username :: string
  email :: string

definition get_user_email :: "user \<Rightarrow> string" where
  "get_user_email user = email user"

definition get_user_nameid :: "user \<Rightarrow> string \<Rightarrow> exn + string" where
  "get_user_nameid user attribute =
     (if attribute = ''urn:oasis:names:tc:SAML:2.0:nameid-format:emailAddress''
      then Inr (get_user_email user)
      else Inl (NotImplementedError (''Can't fetch attribute '' @ attribute @ '' from user'')))"

subsection \<open>Handlers of the configured service providers\<close>

text \<open>
  \<^verbatim>\<open>get_sp_handlers\<close> is a generator: entry \<open>k\<close> of the list is what the generator does
  when the consumer asks for its \<open>k\<close>-th value, \<open>Inl e\<close> when the lookup of
  \<^verbatim>\<open>config['CLASS']\<close>, the import or the constructor raises \<open>e\<close> there.  The loops that
  consume it below go through the list from the left and stop at the first \<open>Inl\<close>.
\<close>

definition get_sp_handlers ::
  "('cert, 'key, 'ov, 'q, 'p, 'v) identity_provider \<Rightarrow> (exn + ('q, 'p, 'v) sp_handler) list" where
  "get_sp_handlers idp =
     map (\<lambda>config.
            case CLASS config of
              None \<Rightarrow> Inl (KeyError ''CLASS'')
            | Some path \<Rightarrow>
                (case import_string idp path of
                   Inl e \<Rightarrow> Inl e
                 | Inr cls \<Rightarrow>
                     cls (case OPTIONS config of None \<Rightarrow> Map.empty | Some options \<Rightarrow> options)))
         (get_service_providers idp)"


section \<open>The views (\<^verbatim>\<open>idp/views.py\<close>)\<close>

subsection \<open>What a view does\<close>

text \<open>
  A view returns a value or raises; it may write the session; and it calls methods of the
  identity provider and of the handlers.  The calls are recorded in the order the source
  makes them, a handler being named by its position in \<^verbatim>\<open>get_sp_handlers()\<close>:
  \<open>Construct k\<close> is the generator producing its \<open>k\<close>-th handler, \<open>LogException k\<close> the
  \<^verbatim>\<open>logger.exception\<close> of the \<^verbatim>\<open>except\<close> clause.
\<close>

datatype call =
    LoginRequired
  | Logout
  | Construct nat
  | ParseAuthnRequest nat
  | MakeResponse nat
  | GetResponseContext nat
  | LogException nat
  | IsValidRedirect nat string

fun call_position :: "call \<Rightarrow> nat option" where
  "call_position LoginRequired = None"
| "call_position Logout = None"
| "call_position (Construct k) = Some k"
| "call_position (ParseAuthnRequest k) = Some k"
| "call_position (MakeResponse k) = Some k"
| "call_position (GetResponseContext k) = Some k"
| "call_position (LogException k) = Some k"
| "call_position (IsValidRedirect k url) = Some k"

text \<open>
  The values a view returns: a string, an \<^verbatim>\<open>HTTPFound\<close> redirect to a location, or
  a dict for the renderer, whose \<^verbatim>\<open>"idp"\<close> entry is the identity provider object.
\<close>

datatype 'v template_value = IdP | Val 'v

datatype 'v view_result =
    Text string
  | HTTPFound string
  | Context "string \<rightharpoonup> 'v template_value"

record 'v outcome =
  result :: "exn + 'v view_result"
  session_after :: session
  calls :: "call list"

subsection \<open>\<^verbatim>\<open>login_begin\<close>\<close>

text \<open>\<^verbatim>\<open>not saml_request\<close> holds for \<^verbatim>\<open>None\<close> and for the empty string.\<close>

definition login_begin :: "request \<Rightarrow> 'v outcome" where
  "login_begin request =
     (case params request ''SAMLRequest'' of
        None \<Rightarrow>
          \<lparr>result = Inr (Text ''SAMLRequest is missing''),
           session_after = session request, calls = []\<rparr>
      | Some saml_request \<Rightarrow>
          if saml_request = []
          then \<lparr>result = Inr (Text ''SAMLRequest is missing''),
                session_after = session request, calls = []\<rparr>
          else \<lparr>result = Inr (HTTPFound (route_url request ''pyramid_saml2_idp_login_process'' [])),
                session_after =
                  (session request)
                    (''SAMLRequest'' \<mapsto> saml_request,
                     ''RelayState'' \<mapsto>
                        (case params request ''RelayState'' of None \<Rightarrow> [] | Some r \<Rightarrow> r)),
                calls = []\<rparr>)"

subsection \<open>\<^verbatim>\<open>login_process\<close>\<close>

text \<open>
  The body of the \<^verbatim>\<open>try\<close>, for the handler at position \<open>k\<close>: the three calls in
  order, the first raise ending it.
\<close>

definition trial ::
  "nat \<Rightarrow> ('q, 'p, 'v) sp_handler \<Rightarrow> string \<Rightarrow> string \<Rightarrow> call list \<times> (exn + (string \<rightharpoonup> 'v))" where
  "trial k handler saml_request relay_state =
     (case parse_authn_request handler saml_request of
        Inl e \<Rightarrow> ([ParseAuthnRequest k], Inl e)
      | Inr req \<Rightarrow>
          (case make_response handler req of
             Inl e \<Rightarrow> ([ParseAuthnRequest k, MakeResponse k], Inl e)
           | Inr response \<Rightarrow>
               ([ParseAuthnRequest k, MakeResponse k, GetResponseContext k],
                get_response_context handler req response relay_state)))"

text \<open>What the \<^verbatim>\<open>try\<close> body of a handler gives, whatever its position.\<close>

definition trial_outcome ::
  "('q, 'p, 'v) sp_handler \<Rightarrow> string \<Rightarrow> string \<Rightarrow> exn + (string \<rightharpoonup> 'v)" where
  "trial_outcome handler saml_request relay_state =
     snd (trial 0 handler saml_request relay_state)"

text \<open>
  The \<^verbatim>\<open>for\<close> loop over \<^verbatim>\<open>idp.get_sp_handlers()\<close>, from position \<open>k\<close> on.  \<open>None\<close>
  is the loop running to its end; \<open>Some (Inr v)\<close> the \<^verbatim>\<open>return\<close> of the \<^verbatim>\<open>else\<close>
  branch, \<^verbatim>\<open>{"idp": idp, **context}\<close>; \<open>Some (Inl e)\<close> an exception leaving the loop:
  one the generator raises, or one of the \<^verbatim>\<open>try\<close> body that the \<^verbatim>\<open>except\<close> clause
  does not match.
\<close>

fun handler_loop ::
  "nat \<Rightarrow> (exn + ('q, 'p, 'v) sp_handler) list \<Rightarrow> string \<Rightarrow> string
     \<Rightarrow> call list \<times> (exn + 'v view_result) option" where
  "handler_loop k [] saml_request relay_state = ([], None)"
| "handler_loop k (Inl e # rest) saml_request relay_state = ([Construct k], Some (Inl e))"
| "handler_loop k (Inr handler # rest) saml_request relay_state =
     (case trial k handler saml_request relay_state of
        (cs, Inr context) \<Rightarrow>
          (Construct k # cs,
           Some (Inr (Context ([''idp'' \<mapsto> IdP] ++ (map_option Val \<circ> context)))))
      | (cs, Inl e) \<Rightarrow>
          if caught e
          then (case handler_loop (Suc k) rest saml_request relay_state of
                  (cs', r) \<Rightarrow> (Construct k # cs @ LogException k # cs', r))
          else (Construct k # cs, Some (Inl e)))"

text \<open>
  The two membership tests on the session come first, in the source's order; a key that is
  present is then read.  After the loop the view raises.
\<close>

definition login_process ::
  "('cert, 'key, 'ov, 'q, 'p, 'v) identity_provider \<Rightarrow> request \<Rightarrow> 'v outcome" where
  "login_process idp request =
     (case login_required idp request of
        Some e \<Rightarrow>
          \<lparr>result = Inl e, session_after = session request, calls = [LoginRequired]\<rparr>
      | None \<Rightarrow>
          (case session request ''SAMLRequest'' of
             None \<Rightarrow>
               \<lparr>result = Inr (Text ''SAMLRequest is misssing''),
                session_after = session request, calls = [LoginRequired]\<rparr>
           | Some saml_request \<Rightarrow>
               (case session request ''RelayState'' of
                  None \<Rightarrow>
                    \<lparr>result = Inr (Text ''RelayState is missing''),
                     session_after = session request, calls = [LoginRequired]\<rparr>
                | Some relay_state \<Rightarrow>
                    (case handler_loop 0 (get_sp_handlers idp) saml_request relay_state of
                       (cs, Some r) \<Rightarrow>
                         \<lparr>result = r, session_after = session request,
                          calls = LoginRequired # cs\<rparr>
                     | (cs, None) \<Rightarrow>
                         \<lparr>result = Inl (CannotHandleAssertion
                            ''No Service Provider handlers could handle this SAML request''),
                          session_after = session request, calls = LoginRequired # cs\<rparr>))))"

subsection \<open>\<^verbatim>\<open>logout\<close>\<close>

text \<open>
  \<^verbatim>\<open>IdentityProvider.is_valid_redirect\<close>: \<^verbatim>\<open>any\<close> over the generator stops at the first
  handler that accepts the URL.
\<close>

fun any_valid_redirect ::
  "nat \<Rightarrow> (exn + ('q, 'p, 'v) sp_handler) list \<Rightarrow> string \<Rightarrow> call list \<times> (exn + bool)" where
  "any_valid_redirect k [] url = ([], Inr False)"
| "any_valid_redirect k (Inl e # rest) url = ([Construct k], Inl e)"
| "any_valid_redirect k (Inr handler # rest) url =
     (case handler_is_valid_redirect handler url of
        Inl e \<Rightarrow> ([Construct k, IsValidRedirect k url], Inl e)
      | Inr True \<Rightarrow> ([Construct k, IsValidRedirect k url], Inr True)
      | Inr False \<Rightarrow>
          (case any_valid_redirect (Suc k) rest url of
             (cs, r) \<Rightarrow> (Construct k # IsValidRedirect k url # cs, r)))"

definition is_valid_redirect ::
  "('cert, 'key, 'ov, 'q, 'p, 'v) identity_provider \<Rightarrow> string \<Rightarrow> call list \<times> (exn + bool)" where
  "is_valid_redirect idp url = any_valid_redirect 0 (get_sp_handlers idp) url"

text \<open>
  The loop over \<^verbatim>\<open>['RelayState', 'redirect_to']\<close>; \<open>None\<close> is the loop running to its
  end.
\<close>

fun redirect_loop ::
  "('cert, 'key, 'ov, 'q, 'p, 'v) identity_provider \<Rightarrow> request \<Rightarrow> string list
     \<Rightarrow> call list \<times> (exn + 'v view_result) option" where
  "redirect_loop idp request [] = ([], None)"
| "redirect_loop idp request (arg # args) =
     (case params request arg of
        None \<Rightarrow> redirect_loop idp request args
      | Some redirect_url \<Rightarrow>
          if redirect_url = [] then redirect_loop idp request args
          else
            (case is_valid_redirect idp redirect_url of
               (cs, Inl e) \<Rightarrow> (cs, Some (Inl e))
             | (cs, Inr True) \<Rightarrow> (cs, Some (Inr (HTTPFound redirect_url)))
             | (cs, Inr False) \<Rightarrow>
                 (case redirect_loop idp request args of (cs', r) \<Rightarrow> (cs @ cs', r))))"

text \<open>
  After the loop the source evaluates \<^verbatim>\<open>{"idp": idp, **context}\<close>; no \<^verbatim>\<open>context\<close> is
  bound in \<^verbatim>\<open>logout\<close> or at module level, so the expression raises \<^verbatim>\<open>NameError\<close>.
\<close>

definition logout ::
  "('cert, 'key, 'ov, 'q, 'p, 'v) identity_provider \<Rightarrow> request \<Rightarrow> 'v outcome" where
  "logout idp request =
     (case login_required idp request of
        Some e \<Rightarrow>
          \<lparr>result = Inl e, session_after = session request, calls = [LoginRequired]\<rparr>
      | None \<Rightarrow>
          (case idp_logout idp request of
             Inl e \<Rightarrow>
               \<lparr>result = Inl e, session_after = session request,
                calls = [LoginRequired, Logout]\<rparr>
           | Inr session' \<Rightarrow>
               (case redirect_loop idp request [''RelayState'', ''redirect_to''] of
                  (cs, Some r) \<Rightarrow>
                    \<lparr>result = r, session_after = session', calls = LoginRequired # Logout # cs\<rparr>
                | (cs, None) \<Rightarrow>
                    \<lparr>result = Inl (NameError ''name 'context' is not defined''),
                     session_after = session', calls = LoginRequired # Logout # cs\<rparr>)))"


section \<open>A host application\<close>

text \<open>
  A concrete host in the manner of \<^verbatim>\<open>examples/idp.py\<close>, on which the theorems below are
  instantiated: two users, the logged-in user under the session key \<^verbatim>\<open>user\<close>
  (\<^verbatim>\<open>login_required\<close> raises a redirect to the login view with the URL of the
  request as \<^verbatim>\<open>next\<close>; \<^verbatim>\<open>logout\<close> is \<^verbatim>\<open>del session['user']\<close>), and one handler
  class, whose instances
  accept the requests of their own entity id and answer with the name id of the user in
  the format they are configured with.
\<close>

definition users :: "string \<rightharpoonup> user" where
  "users = [''alex'' \<mapsto> \<lparr>username = ''alex'', email = ''alex@example.com''\<rparr>,
            ''jordan'' \<mapsto> \<lparr>username = ''jordan'', email = ''jordan@example.com''\<rparr>]"

definition is_user_logged_in :: "request \<Rightarrow> bool" where
  "is_user_logged_in request =
     (case session request ''user'' of None \<Rightarrow> False | Some u \<Rightarrow> users u \<noteq> None)"

definition example_login_required :: "request \<Rightarrow> exn option" where
  "example_login_required request =
     (if \<not> is_user_logged_in request
      then Some (HTTPFoundRaised (route_url request ''login_view'' [(''next'', request_url request)]))
      else None)"

definition example_logout :: "request \<Rightarrow> exn + session" where
  "example_logout request =
     (case session request ''user'' of
        None \<Rightarrow> Inl (KeyError ''user'')
      | Some _ \<Rightarrow> Inr ((session request)(''user'' := None)))"

definition example_handler ::
  "string \<Rightarrow> string \<Rightarrow> string \<Rightarrow> (string, string, string) sp_handler" where
  "example_handler entity_id acs_url nameid_format =
     \<lparr>parse_authn_request =
        (\<lambda>saml_request.
           if saml_request = entity_id then Inr saml_request
           else Inl (CannotHandleAssertion ''unknown issuer'')),
      make_response =
        (\<lambda>req. get_user_nameid \<lparr>username = ''alex'', email = ''alex@example.com''\<rparr>
                  nameid_format),
      get_response_context =
        (\<lambda>req response relay_state.
           Inr [''acs_url'' \<mapsto> acs_url, ''relay_state'' \<mapsto> relay_state,
                ''saml_response'' \<mapsto> response]),
      handler_is_valid_redirect = (\<lambda>url. Inr (url = acs_url))\<rparr>"

definition example_import_string ::
  "string \<Rightarrow> exn + ((string \<rightharpoonup> string) \<Rightarrow> exn + (string, string, string) sp_handler)" where
  "example_import_string path =
     (if path = ''examples.idp.AttributeSPHandler''
      then Inr (\<lambda>options.
             case (options ''entity_id'', options ''acs_url'', options ''nameid_format'') of
               (Some e, Some a, Some f) \<Rightarrow> Inr (example_handler e a f)
             | _ \<Rightarrow> Inl (OtherException ''TypeError'' ''missing argument''))
      else Inl (OtherException ''ImportError'' path))"

definition example_idp ::
  "string option \<Rightarrow> string option \<Rightarrow> (string \<rightharpoonup> string) list
     \<Rightarrow> (string, string, string, string, string, string) identity_provider" where
  "example_idp cert pkey sps =
     \<lparr>SAML2_IDP = \<lparr>certificate = cert, private_key = pkey, autosubmit = Some True\<rparr>,
      SAML2_SERVICE_PROVIDERS =
        map (\<lambda>options. \<lparr>CLASS = Some ''examples.idp.AttributeSPHandler'',
                         OPTIONS = Some options\<rparr>) sps,
      import_string = example_import_string,
      login_required = example_login_required,
      idp_logout = example_logout\<rparr>"

definition email_format :: string where
  "email_format = ''urn:oasis:names:tc:SAML:2.0:nameid-format:emailAddress''"

definition persistent_format :: string where
  "persistent_format = ''urn:oasis:names:tc:SAML:2.0:nameid-format:persistent''"

definition sp_options :: "string \<Rightarrow> string \<Rightarrow> string \<Rightarrow> (string \<rightharpoonup> string)" where
  "sp_options entity_id acs_url nameid_format =
     [''entity_id'' \<mapsto> entity_id, ''acs_url'' \<mapsto> acs_url,
      ''nameid_format'' \<mapsto> nameid_format]"

text \<open>
  Requests to the server of \<^verbatim>\<open>examples/idp.py\<close>, with the routes of
  \<^verbatim>\<open>configure_saml2_idp\<close> and the example's \<^verbatim>\<open>/login\<close>.  The query is url-encoded as
  far as the URLs used here need: \<^verbatim>\<open>:\<close> and \<^verbatim>\<open>/\<close> are escaped, letters, digits,
  \<^verbatim>\<open>.\<close> and \<^verbatim>\<open>-\<close> stand for themselves.
\<close>

definition route_pattern :: "string \<Rightarrow> string" where
  "route_pattern name =
     (if name = ''pyramid_saml2_idp_login_begin'' then ''/saml/login/''
      else if name = ''pyramid_saml2_idp_login_process'' then ''/saml/login/process/''
      else if name = ''pyramid_saml2_idp_logout'' then ''/saml/logout/''
      else if name = ''pyramid_saml2_idp_metadata'' then ''/saml/metadata.xml''
      else ''/login'')"

definition quote_char :: "char \<Rightarrow> string" where
  "quote_char c = (if c = CHR '':'' then ''%3A'' else if c = CHR ''/'' then ''%2F'' else [c])"

fun urlencode :: "(string \<times> string) list \<Rightarrow> string" where
  "urlencode [] = []"
| "urlencode [(k, v)] = concat (map quote_char k) @ ''='' @ concat (map quote_char v)"
| "urlencode ((k, v) # q) =
     concat (map quote_char k) @ ''='' @ concat (map quote_char v) @ ''&'' @ urlencode q"

definition example_request :: "string \<Rightarrow> (string \<rightharpoonup> string) \<Rightarrow> session \<Rightarrow> request" where
  "example_request route ps s =
     \<lparr>params = ps, session = s,
      request_url = ''http://localhost:8000'' @ route_pattern route,
      route_url = (\<lambda>name query.
        ''http://localhost:8000'' @ route_pattern name
          @ (if query = [] then [] else ''?'' @ urlencode query))\<rparr>"

definition begin_request :: "(string \<rightharpoonup> string) \<Rightarrow> session \<Rightarrow> request" where
  "begin_request ps s = example_request ''pyramid_saml2_idp_login_begin'' ps s"

definition process_request :: "session \<Rightarrow> request" where
  "process_request s = example_request ''pyramid_saml2_idp_login_process'' Map.empty s"

definition logout_request :: "(string \<rightharpoonup> string) \<Rightarrow> request" where
  "logout_request ps = example_request ''pyramid_saml2_idp_logout'' ps [''user'' \<mapsto> ''alex'']"

text \<open>
  The fixtures of the instances: three registrations that each accept their own entity id,
  a provider whose first registration asks for a name id format the default
  \<^verbatim>\<open>get_user_nameid\<close> does not know, and requests of a logged-in user.
\<close>

definition handler_a :: "(string, string, string) sp_handler" where
  "handler_a = example_handler ''sp-a'' ''https://a.example/acs/'' email_format"

definition handler_b :: "(string, string, string) sp_handler" where
  "handler_b = example_handler ''sp-b'' ''https://b.example/acs/'' email_format"

definition handler_c :: "(string, string, string) sp_handler" where
  "handler_c = example_handler ''sp-c'' ''https://c.example/acs/'' email_format"

definition handler_b_persistent :: "(string, string, string) sp_handler" where
  "handler_b_persistent = example_handler ''sp-b'' ''https://b.example/acs/'' persistent_format"

definition three_sp_idp ::
  "(string, string, string, string, string, string) identity_provider" where
  "three_sp_idp =
     example_idp (Some ''CERT'') (Some ''KEY'')
       [sp_options ''sp-a'' ''https://a.example/acs/'' email_format,
        sp_options ''sp-b'' ''https://b.example/acs/'' email_format,
        sp_options ''sp-c'' ''https://c.example/acs/'' email_format]"

definition strict_idp ::
  "(string, string, string, string, string, string) identity_provider" where
  "strict_idp =
     example_idp (Some ''CERT'') (Some ''KEY'')
       [sp_options ''sp-b'' ''https://b.example/acs/'' persistent_format,
        sp_options ''sp-b'' ''https://b.example/acs/'' email_format]"

definition captured :: "string \<Rightarrow> request" where
  "captured saml_request =
     process_request
       [''user'' \<mapsto> ''alex'', ''SAMLRequest'' \<mapsto> saml_request, ''RelayState'' \<mapsto> ''/home'']"

definition context_b :: "string \<rightharpoonup> string" where
  "context_b = [''acs_url'' \<mapsto> ''https://b.example/acs/'', ''relay_state'' \<mapsto> ''/home'',
                ''saml_response'' \<mapsto> ''alex@example.com'']"



section \<open>Facts about the loops\<close>

lemma snd_trial: "snd (trial k h s r) = trial_outcome h s r"
  by (simp add: trial_def trial_outcome_def split: sum.splits)

lemma trial_positions: "c \<in> set (fst (trial k h s r)) \<Longrightarrow> call_position c = Some k"
  by (auto simp: trial_def split: sum.splits)

lemma handler_loop_caught:
  assumes "trial_outcome h s r = Inl e" and "caught e"
  shows "handler_loop k (Inr h # rest) s r =
           (Construct k # fst (trial k h s r) @ LogException k # fst (handler_loop (Suc k) rest s r),
            snd (handler_loop (Suc k) rest s r))"
proof -
  obtain cs where t: "trial k h s r = (cs, Inl e)"
    using assms(1) snd_trial [of k h s r] by (cases "trial k h s r") simp
  show ?thesis using t assms(2) by (simp split: prod.splits)
qed

lemma handler_loop_uncaught:
  assumes "trial_outcome h s r = Inl e" and "\<not> caught e"
  shows "handler_loop k (Inr h # rest) s r = (Construct k # fst (trial k h s r), Some (Inl e))"
proof -
  obtain cs where t: "trial k h s r = (cs, Inl e)"
    using assms(1) snd_trial [of k h s r] by (cases "trial k h s r") simp
  show ?thesis using t assms(2) by simp
qed

lemma handler_loop_success:
  assumes "trial_outcome h s r = Inr context"
  shows "handler_loop k (Inr h # rest) s r =
           (Construct k # fst (trial k h s r),
            Some (Inr (Context ([''idp'' \<mapsto> IdP] ++ (map_option Val \<circ> context)))))"
proof -
  obtain cs where t: "trial k h s r = (cs, Inr context)"
    using assms snd_trial [of k h s r] by (cases "trial k h s r") simp
  show ?thesis using t by simp
qed

lemma handler_loop_skip:
  assumes "\<forall>h\<in>set before. raises caught (trial_outcome h s r)"
  shows "\<exists>cs. handler_loop k (map Inr before @ rest) s r =
                (cs @ fst (handler_loop (k + length before) rest s r),
                 snd (handler_loop (k + length before) rest s r))
              \<and> (\<forall>c\<in>set cs. \<exists>j. call_position c = Some j \<and> j < k + length before)"
  using assms
proof (induction before arbitrary: k)
  case Nil
  show ?case by (intro exI [of _ "[]"]) simp
next
  case (Cons h hs)
  from Cons.prems obtain e where e: "trial_outcome h s r = Inl e" "caught e"
    by (auto simp: raises_def split: sum.splits)
  from Cons.prems have "\<forall>h\<in>set hs. raises caught (trial_outcome h s r)" by simp
  from Cons.IH [OF this, of "Suc k"] obtain cs where
    cs: "handler_loop (Suc k) (map Inr hs @ rest) s r =
           (cs @ fst (handler_loop (Suc k + length hs) rest s r),
            snd (handler_loop (Suc k + length hs) rest s r))"
    and pos: "\<forall>c\<in>set cs. \<exists>j. call_position c = Some j \<and> j < Suc k + length hs"
    by blast
  let ?cs = "Construct k # fst (trial k h s r) @ LogException k # cs"
  have "handler_loop k (map Inr (h # hs) @ rest) s r =
          (?cs @ fst (handler_loop (k + length (h # hs)) rest s r),
           snd (handler_loop (k + length (h # hs)) rest s r))"
    using handler_loop_caught [OF e, of k "map Inr hs @ rest"] cs by simp
  moreover have "\<forall>c\<in>set ?cs. \<exists>j. call_position c = Some j \<and> j < k + length (h # hs)"
    using pos trial_positions [of _ k h s r] by auto
  ultimately show ?case by blast
qed

lemma handler_loop_constructs_head:
  "Construct k \<in> set (fst (handler_loop k (x # rest) s r))"
proof (cases x)
  case (Inl e)
  then show ?thesis by simp
next
  case x: (Inr h)
  show ?thesis
  proof (cases "trial_outcome h s r")
    case (Inl e)
    then show ?thesis
      using handler_loop_caught [of h s r e k rest] handler_loop_uncaught [of h s r e k rest]
        x
      by (cases "caught e") simp_all
  next
    case (Inr ctx)
    then show ?thesis
      using handler_loop_success [of h s r ctx k rest] x by simp
  qed
qed

lemma handler_loop_first_match:
  assumes "\<forall>h\<in>set before. raises caught (trial_outcome h s r)"
    and "trial_outcome handler s r = Inr context"
  shows "snd (handler_loop 0 (map Inr before @ Inr handler # after) s r) =
           Some (Inr (Context ([''idp'' \<mapsto> IdP] ++ (map_option Val \<circ> context))))
         \<and> (\<forall>c\<in>set (fst (handler_loop 0 (map Inr before @ Inr handler # after) s r)).
               \<exists>j. call_position c = Some j \<and> j \<le> length before)"
proof -
  from handler_loop_skip [OF assms(1), of 0 "Inr handler # after"] obtain cs where
    cs: "handler_loop 0 (map Inr before @ Inr handler # after) s r =
           (cs @ fst (handler_loop (length before) (Inr handler # after) s r),
            snd (handler_loop (length before) (Inr handler # after) s r))"
    and pos: "\<forall>c\<in>set cs. \<exists>j. call_position c = Some j \<and> j < length before"
    by auto
  note hit = handler_loop_success [OF assms(2), of "length before" after]
  have "\<forall>c\<in>set (cs @ Construct (length before) # fst (trial (length before) handler s r)).
          \<exists>j. call_position c = Some j \<and> j \<le> length before"
    using pos trial_positions [of _ "length before" handler s r] by (auto intro: less_imp_le)
  then show ?thesis using cs hit by simp
qed

lemma handler_loop_all_caught:
  assumes "\<forall>h\<in>set handlers. raises caught (trial_outcome h s r)"
  shows "snd (handler_loop 0 (map Inr handlers) s r) = None"
  using handler_loop_skip [OF assms, of 0 "[]"] by auto

text \<open>
  When the loop comes to try the handler at a position, every handler before it has
  failed with an exception the \<^verbatim>\<open>except\<close> clause matches: anything else would have
  left the loop.
\<close>

lemma handler_loop_reaches:
  assumes "ParseAuthnRequest (k + length before)
             \<in> set (fst (handler_loop k (map Inr before @ rest) s r))"
  shows "\<forall>h\<in>set before. raises caught (trial_outcome h s r)"
  using assms
proof (induction before arbitrary: k)
  case Nil
  show ?case by simp
next
  case (Cons h hs)
  let ?tail = "map Inr hs @ rest"
  let ?far = "ParseAuthnRequest (k + length (h # hs))"
  have far: "?far \<notin> set (Construct k # fst (trial k h s r))"
    using trial_positions [of ?far k h s r] by auto
  show ?case
  proof (cases "trial_outcome h s r")
    case (Inr ctx)
    with Cons.prems far handler_loop_success [OF Inr, of k ?tail] show ?thesis by simp
  next
    case (Inl e)
    show ?thesis
    proof (cases "caught e")
      case False
      with Cons.prems far handler_loop_uncaught [OF Inl False, of k ?tail] show ?thesis by simp
    next
      case True
      with Cons.prems far handler_loop_caught [OF Inl True, of k ?tail]
      have "ParseAuthnRequest (Suc k + length hs) \<in> set (fst (handler_loop (Suc k) ?tail s r))"
        by auto
      from Cons.IH [OF this] Inl True show ?thesis by (simp add: raises_def)
    qed
  qed
qed

lemma login_process_reaches:
  assumes "get_sp_handlers idp = map Inr before @ rest"
    and "session request ''SAMLRequest'' = Some saml_request"
    and "session request ''RelayState'' = Some relay_state"
    and "ParseAuthnRequest (length before) \<in> set (calls (login_process idp request))"
  shows "\<forall>h\<in>set before. raises caught (trial_outcome h saml_request relay_state)"
proof -
  have "ParseAuthnRequest (0 + length before)
          \<in> set (fst (handler_loop 0 (map Inr before @ rest) saml_request relay_state))"
    using assms by (auto simp: login_process_def split: option.splits prod.splits)
  then show ?thesis by (rule handler_loop_reaches)
qed

text \<open>
  The same from the handlers: when every handler before a position fails with an exception
  the clause matches and the trial at the position completes, the view returns its context.
\<close>

lemma login_process_accepts_after_rejections:
  assumes "login_required idp request = None"
    and "session request ''SAMLRequest'' = Some saml_request"
    and "session request ''RelayState'' = Some relay_state"
    and "get_sp_handlers idp = map Inr before @ Inr handler # after"
    and "\<forall>h\<in>set before. raises caught (trial_outcome h saml_request relay_state)"
    and "trial_outcome handler saml_request relay_state = Inr context"
  shows "result (login_process idp request) =
           Inr (Context ([''idp'' \<mapsto> IdP] ++ (map_option Val \<circ> context)))
         \<and> (\<forall>c\<in>set (calls (login_process idp request)).
               \<forall>j. call_position c = Some j \<longrightarrow> j \<le> length before)"
proof -
  let ?loop = "handler_loop 0 (get_sp_handlers idp) saml_request relay_state"
  from handler_loop_first_match [OF assms(5,6), of after]
  have r: "snd ?loop = Some (Inr (Context ([''idp'' \<mapsto> IdP] ++ (map_option Val \<circ> context))))"
    and pos: "\<forall>c\<in>set (fst ?loop). \<exists>j. call_position c = Some j \<and> j \<le> length before"
    by (simp_all add: assms(4))
  obtain cs where loop: "?loop = (cs, Some (Inr (Context ([''idp'' \<mapsto> IdP] ++ (map_option Val \<circ> context)))))"
    using r by (cases ?loop) simp
  have "result (login_process idp request) =
          Inr (Context ([''idp'' \<mapsto> IdP] ++ (map_option Val \<circ> context)))"
    and "calls (login_process idp request) = LoginRequired # cs"
    using assms(1-3) loop by (simp_all add: login_process_def)
  then show ?thesis using pos loop by auto
qed

lemma caught_iff: "caught e \<longleftrightarrow> (\<exists>msg. e = CannotHandleAssertion msg \<or> e = ValueError msg)"
  by (cases e) simp_all

lemma handler_loop_returns_context:
  "snd (handler_loop k hs s r) = Some (Inr v) \<Longrightarrow> \<exists>c. v = Context c"
proof (induction hs arbitrary: k)
  case Nil
  then show ?case by simp
next
  case (Cons x hs)
  show ?case
  proof (cases x)
    case (Inl e)
    with Cons.prems show ?thesis by simp
  next
    case x: (Inr h)
    show ?thesis
    proof (cases "trial_outcome h s r")
      case (Inl e)
      show ?thesis
      proof (cases "caught e")
        case True
        with Cons.prems Cons.IH [of "Suc k"] x handler_loop_caught [OF Inl True, of k hs]
        show ?thesis by simp
      next
        case False
        with Cons.prems x handler_loop_uncaught [OF Inl False, of k hs]
        show ?thesis by simp
      qed
    next
      case (Inr ctx)
      with Cons.prems x handler_loop_success [OF Inr, of k hs] show ?thesis by auto
    qed
  qed
qed

lemma login_process_relay_state_branch:
  assumes "result (login_process idp request) = Inr (Text ''RelayState is missing'')"
  shows "session request ''RelayState'' = None"
proof (cases "login_required idp request")
  case (Some e)
  with assms show ?thesis by (simp add: login_process_def)
next
  case None
  show ?thesis
  proof (cases "session request ''SAMLRequest''")
    case n: None
    with assms None show ?thesis by (simp add: login_process_def)
  next
    case s: (Some saml_request)
    show ?thesis
    proof (cases "session request ''RelayState''")
      case (Some relay_state)
      obtain cs ro where loop:
        "handler_loop 0 (get_sp_handlers idp) saml_request relay_state = (cs, ro)"
        by (cases "handler_loop 0 (get_sp_handlers idp) saml_request relay_state")
      have "ro \<noteq> Some (Inr (Text ''RelayState is missing''))"
        using handler_loop_returns_context
          [of 0 "get_sp_handlers idp" saml_request relay_state "Text ''RelayState is missing''"]
          loop by auto
      with assms None s Some loop show ?thesis
        by (cases ro) (simp_all add: login_process_def)
    qed simp
  qed
qed

lemma redirect_loop_returns_redirect:
  "snd (redirect_loop idp request args) = Some (Inr v) \<Longrightarrow>
     \<exists>arg\<in>set args. \<exists>url. params request arg = Some url \<and> url \<noteq> []
        \<and> snd (is_valid_redirect idp url) = Inr True \<and> v = HTTPFound url"
proof (induction args)
  case Nil
  then show ?case by simp
next
  case (Cons arg args)
  show ?case
  proof (cases "params request arg")
    case None
    with Cons show ?thesis by simp
  next
    case (Some url)
    show ?thesis
    proof (cases "url = []")
      case True
      with Cons Some show ?thesis by simp
    next
      case False
      obtain cs ok where v: "is_valid_redirect idp url = (cs, ok)"
        by (cases "is_valid_redirect idp url")
      show ?thesis
      proof (cases ok)
        case (Inl e)
        with Cons.prems Some False v show ?thesis by simp
      next
        case (Inr b)
        show ?thesis
        proof (cases b)
          case True
          with Cons.prems Some False v Inr show ?thesis by auto
        next
          case no: False
          with Cons.prems Some False v Inr
          have "snd (redirect_loop idp request args) = Some (Inr v)"
            by (simp split: prod.splits)
          from Cons.IH [OF this] show ?thesis by auto
        qed
      qed
    qed
  qed
qed

lemma logout_never_renders:
  "result (logout idp request) \<noteq> Inr (Context c) \<and> result (logout idp request) \<noteq> Inr (Text t)"
proof (cases "login_required idp request")
  case (Some e)
  then show ?thesis by (simp add: logout_def)
next
  case None
  show ?thesis
  proof (cases "idp_logout idp request")
    case (Inl e)
    with None show ?thesis by (simp add: logout_def)
  next
    case (Inr s')
    obtain cs ro where loop:
      "redirect_loop idp request [''RelayState'', ''redirect_to''] = (cs, ro)"
      by (cases "redirect_loop idp request [''RelayState'', ''redirect_to'']")
    have "ro \<noteq> Some (Inr (Context c))" "ro \<noteq> Some (Inr (Text t))"
      using redirect_loop_returns_redirect
        [of idp request "[''RelayState'', ''redirect_to'']"] loop by auto
    with None Inr loop show ?thesis by (cases ro) (simp_all add: logout_def)
  qed
qed


lemma logout_redirects_to_accepted_target:
  assumes "result (logout idp request) = Inr (HTTPFound url)"
  shows "url \<noteq> []
         \<and> (params request ''RelayState'' = Some url \<or> params request ''redirect_to'' = Some url)
         \<and> snd (is_valid_redirect idp url) = Inr True"
proof (cases "login_required idp request")
  case (Some e)
  with assms show ?thesis by (simp add: logout_def)
next
  case None
  show ?thesis
  proof (cases "idp_logout idp request")
    case (Inl e)
    with assms None show ?thesis by (simp add: logout_def)
  next
    case (Inr s')
    obtain cs ro where loop:
      "redirect_loop idp request [''RelayState'', ''redirect_to''] = (cs, ro)"
      by (cases "redirect_loop idp request [''RelayState'', ''redirect_to'']")
    with assms None Inr have "ro = Some (Inr (HTTPFound url))"
      by (cases ro) (simp_all add: logout_def)
    with loop redirect_loop_returns_redirect
      [of idp request "[''RelayState'', ''redirect_to'']" "HTTPFound url"]
    show ?thesis by auto
  qed
qed


section \<open>The host application, evaluated\<close>

lemma example_class_constructs:
  "get_sp_handlers (example_idp cert pkey (map (\<lambda>(e, a, f). sp_options e a f) regs)) =
     map (\<lambda>(e, a, f). Inr (example_handler e a f)) regs"
  by (simp add: get_sp_handlers_def get_service_providers_def example_idp_def
      example_import_string_def sp_options_def split_def)

lemma three_sp_handlers:
  "get_sp_handlers three_sp_idp = [Inr handler_a, Inr handler_b, Inr handler_c]"
  using example_class_constructs [of "Some ''CERT''" "Some ''KEY''"
      "[(''sp-a'', ''https://a.example/acs/'', email_format),
        (''sp-b'', ''https://b.example/acs/'', email_format),
        (''sp-c'', ''https://c.example/acs/'', email_format)]"]
  by (simp add: three_sp_idp_def handler_a_def handler_b_def handler_c_def)

lemma strict_handlers:
  "get_sp_handlers strict_idp = [Inr handler_b_persistent, Inr handler_b]"
  using example_class_constructs [of "Some ''CERT''" "Some ''KEY''"
      "[(''sp-b'', ''https://b.example/acs/'', persistent_format),
        (''sp-b'', ''https://b.example/acs/'', email_format)]"]
  by (simp add: strict_idp_def handler_b_persistent_def handler_b_def)

lemma example_trial:
  "trial k (example_handler e a f) s r =
     (if s = e
      then (case get_user_nameid \<lparr>username = ''alex'', email = ''alex@example.com''\<rparr> f of
              Inl x \<Rightarrow> ([ParseAuthnRequest k, MakeResponse k], Inl x)
            | Inr n \<Rightarrow> ([ParseAuthnRequest k, MakeResponse k, GetResponseContext k],
                Inr [''acs_url'' \<mapsto> a, ''relay_state'' \<mapsto> r, ''saml_response'' \<mapsto> n]))
      else ([ParseAuthnRequest k], Inl (CannotHandleAssertion ''unknown issuer'')))"
  by (simp add: trial_def example_handler_def split: sum.splits)

lemma nameid_email:
  "get_user_nameid \<lparr>username = ''alex'', email = ''alex@example.com''\<rparr> email_format
     = Inr ''alex@example.com''"
  by (simp add: get_user_nameid_def get_user_email_def email_format_def)

lemma nameid_persistent:
  "get_user_nameid \<lparr>username = ''alex'', email = ''alex@example.com''\<rparr> persistent_format
     = Inl (NotImplementedError
         ''Can't fetch attribute urn:oasis:names:tc:SAML:2.0:nameid-format:persistent from user'')"
  by (simp add: get_user_nameid_def persistent_format_def)

lemma captured_request:
  "login_required three_sp_idp (captured s) = None"
  "login_required strict_idp (captured s) = None"
  "login_required (example_idp cert pkey sps) (captured s) = None"
  "session (captured s) ''SAMLRequest'' = Some s"
  "session (captured s) ''RelayState'' = Some ''/home''"
  by (simp_all add: three_sp_idp_def strict_idp_def example_idp_def example_login_required_def
      is_user_logged_in_def users_def captured_def process_request_def example_request_def)

lemma example_trials:
  "trial k handler_a s r =
     (if s = ''sp-a''
      then ([ParseAuthnRequest k, MakeResponse k, GetResponseContext k],
            Inr [''acs_url'' \<mapsto> ''https://a.example/acs/'', ''relay_state'' \<mapsto> r,
                 ''saml_response'' \<mapsto> ''alex@example.com''])
      else ([ParseAuthnRequest k], Inl (CannotHandleAssertion ''unknown issuer'')))"
  "trial k handler_b s r =
     (if s = ''sp-b''
      then ([ParseAuthnRequest k, MakeResponse k, GetResponseContext k],
            Inr [''acs_url'' \<mapsto> ''https://b.example/acs/'', ''relay_state'' \<mapsto> r,
                 ''saml_response'' \<mapsto> ''alex@example.com''])
      else ([ParseAuthnRequest k], Inl (CannotHandleAssertion ''unknown issuer'')))"
  "trial k handler_c s r =
     (if s = ''sp-c''
      then ([ParseAuthnRequest k, MakeResponse k, GetResponseContext k],
            Inr [''acs_url'' \<mapsto> ''https://c.example/acs/'', ''relay_state'' \<mapsto> r,
                 ''saml_response'' \<mapsto> ''alex@example.com''])
      else ([ParseAuthnRequest k], Inl (CannotHandleAssertion ''unknown issuer'')))"
  "trial k handler_b_persistent s r =
     (if s = ''sp-b''
      then ([ParseAuthnRequest k, MakeResponse k],
            Inl (NotImplementedError
              ''Can't fetch attribute urn:oasis:names:tc:SAML:2.0:nameid-format:persistent from user''))
      else ([ParseAuthnRequest k], Inl (CannotHandleAssertion ''unknown issuer'')))"
  by (simp_all add: handler_a_def handler_b_def handler_c_def handler_b_persistent_def
      example_trial nameid_email nameid_persistent)

lemma logged_in:
  "login_required three_sp_idp (logout_request ps) = None"
  "idp_logout three_sp_idp (logout_request ps) = Inr Map.empty"
  "params (logout_request ps) = ps"
  "session (logout_request ps) = [''user'' \<mapsto> ''alex'']"
  "login_required three_sp_idp (process_request [''user'' \<mapsto> ''alex'']) = None"
  "session (process_request s) = s"
  by (simp_all add: three_sp_idp_def example_idp_def example_login_required_def
      is_user_logged_in_def users_def logout_request_def process_request_def
      example_request_def example_logout_def)

lemma not_logged_in:
  "login_required three_sp_idp (process_request Map.empty) =
     Some (HTTPFoundRaised
       ''http://localhost:8000/login?next=http%3A%2F%2Flocalhost%3A8000%2Fsaml%2Flogin%2Fprocess%2F'')"
  by (simp add: three_sp_idp_def example_idp_def example_login_required_def
      is_user_logged_in_def process_request_def example_request_def route_pattern_def
      quote_char_def)


section \<open>Signing policy\<close>

text \<open>
  C4. \<^verbatim>\<open>should_sign_responses()\<close> is true if and only if the certificate and the private
  key are both present; of the four combinations of presence it is true in one.
\<close>

theorem should_sign_responses_iff:
  "(should_sign_responses idp \<longleftrightarrow>
      (\<exists>c k. get_idp_certificate idp = Some c \<and> get_idp_private_key idp = Some k))
   \<and> should_sign_responses
        (idp\<lparr>SAML2_IDP := \<lparr>certificate = Some c, private_key = Some k, autosubmit = a\<rparr>\<rparr>)
   \<and> \<not> should_sign_responses
        (idp\<lparr>SAML2_IDP := \<lparr>certificate = Some c, private_key = None, autosubmit = a\<rparr>\<rparr>)
   \<and> \<not> should_sign_responses
        (idp\<lparr>SAML2_IDP := \<lparr>certificate = None, private_key = Some k, autosubmit = a\<rparr>\<rparr>)
   \<and> \<not> should_sign_responses
        (idp\<lparr>SAML2_IDP := \<lparr>certificate = None, private_key = None, autosubmit = a\<rparr>\<rparr>)"
  by (auto simp: should_sign_responses_def get_idp_certificate_def get_idp_private_key_def
      get_idp_config_def)

theorem should_sign_responses_iff_witness:
  "should_sign_responses (example_idp (Some ''CERT'') (Some ''KEY'') [])
   \<and> \<not> should_sign_responses (example_idp (Some ''CERT'') None [])
   \<and> \<not> should_sign_responses (example_idp None (Some ''KEY'') [])
   \<and> \<not> should_sign_responses (example_idp None None [])"
  using should_sign_responses_iff [of "example_idp (Some ''CERT'') (Some ''KEY'') []"]
    should_sign_responses_iff [of "example_idp (Some ''CERT'') None []"]
    should_sign_responses_iff [of "example_idp None (Some ''KEY'') []"]
    should_sign_responses_iff [of "example_idp None None []"]
  by (simp add: example_idp_def get_idp_certificate_def get_idp_private_key_def
      get_idp_config_def)

text \<open>
  C5, as the claim states it, fails: with a private key and no certificate configured,
  signing is disabled and \<^verbatim>\<open>get_idp_signer()\<close> still returns a signer.
\<close>

theorem get_idp_signer_key_without_certificate:
  "\<not> should_sign_responses (example_idp None (Some ''KEY'') [])
   \<and> get_idp_signer (example_idp None (Some ''KEY'') []) \<noteq> None"
  by (simp add: should_sign_responses_def get_idp_signer_def get_idp_certificate_def
      get_idp_private_key_def get_idp_config_def example_idp_def)

text \<open>
  C5, amended. \<^verbatim>\<open>get_idp_signer()\<close> looks at the private key alone: it returns a signer
  constructed from the configured private key whenever one is configured, with or without
  a certificate, and \<^verbatim>\<open>None\<close> exactly when no private key is configured.  So it returns a
  signer whenever \<^verbatim>\<open>should_sign_responses()\<close> is true, and \<^verbatim>\<open>None\<close> when signing is
  disabled for want of a private key.
\<close>

theorem get_idp_signer_private_key:
  "get_idp_signer idp = map_option RsaSha1Signer (get_idp_private_key idp)
   \<and> (get_idp_signer idp = None \<longleftrightarrow> get_idp_private_key idp = None)
   \<and> (should_sign_responses idp \<longrightarrow>
        (\<exists>k. get_idp_private_key idp = Some k \<and> get_idp_signer idp = Some (RsaSha1Signer k)))
   \<and> (get_idp_private_key idp = None \<longrightarrow>
        \<not> should_sign_responses idp \<and> get_idp_signer idp = None)"
  by (auto simp: get_idp_signer_def should_sign_responses_def split: option.splits)

theorem get_idp_signer_private_key_witness:
  "should_sign_responses (example_idp (Some ''CERT'') (Some ''KEY'') [])
   \<and> get_idp_signer (example_idp (Some ''CERT'') (Some ''KEY'') []) = Some (RsaSha1Signer ''KEY'')
   \<and> get_idp_private_key (example_idp (Some ''CERT'') None []) = None
   \<and> get_idp_signer (example_idp (Some ''CERT'') None []) = None"
  using get_idp_signer_private_key [of "example_idp (Some ''CERT'') (Some ''KEY'') []"]
    get_idp_signer_private_key [of "example_idp (Some ''CERT'') None []"]
  by (simp add: example_idp_def should_sign_responses_def get_idp_certificate_def
      get_idp_private_key_def get_idp_config_def)


section \<open>Name identifiers\<close>

text \<open>
  C6, as the claim states it, fails: for an attribute other than the email address URN
  the exception raised is the builtin \<^verbatim>\<open>NotImplementedError\<close>, not
  \<^verbatim>\<open>UnsupportedAttribute\<close>.
\<close>

theorem get_user_nameid_not_UnsupportedAttribute:
  "\<not> raises is_UnsupportedAttribute
       (get_user_nameid \<lparr>username = ''alex'', email = ''alex@example.com''\<rparr> persistent_format)"
  by (simp add: get_user_nameid_def persistent_format_def raises_def)

text \<open>
  C6, amended. For every user and attribute URN, the default \<^verbatim>\<open>get_user_nameid\<close>
  returns the user's email address when the attribute is
  \<^verbatim>\<open>urn:oasis:names:tc:SAML:2.0:nameid-format:emailAddress\<close>, and for every other
  attribute it raises \<^verbatim>\<open>NotImplementedError\<close>, the message naming the attribute.
\<close>

theorem get_user_nameid_email_or_NotImplementedError:
  "(attribute = ''urn:oasis:names:tc:SAML:2.0:nameid-format:emailAddress'' \<longrightarrow>
      get_user_nameid user attribute = Inr (email user))
   \<and> (attribute \<noteq> ''urn:oasis:names:tc:SAML:2.0:nameid-format:emailAddress'' \<longrightarrow>
      get_user_nameid user attribute =
        Inl (NotImplementedError (''Can't fetch attribute '' @ attribute @ '' from user'')))"
  by (simp add: get_user_nameid_def get_user_email_def)

theorem get_user_nameid_email_or_NotImplementedError_witness:
  "get_user_nameid \<lparr>username = ''alex'', email = ''alex@example.com''\<rparr> email_format
     = Inr ''alex@example.com''
   \<and> persistent_format \<noteq> ''urn:oasis:names:tc:SAML:2.0:nameid-format:emailAddress''
   \<and> get_user_nameid \<lparr>username = ''alex'', email = ''alex@example.com''\<rparr> persistent_format
     = Inl (NotImplementedError
         ''Can't fetch attribute urn:oasis:names:tc:SAML:2.0:nameid-format:persistent from user'')"
  using get_user_nameid_email_or_NotImplementedError
      [of email_format "\<lparr>username = ''alex'', email = ''alex@example.com''\<rparr>"]
    get_user_nameid_email_or_NotImplementedError
      [of persistent_format "\<lparr>username = ''alex'', email = ''alex@example.com''\<rparr>"]
  by (simp add: email_format_def persistent_format_def)


section \<open>Handler resolution in \<^verbatim>\<open>login_process\<close>\<close>

text \<open>
  C1. The trials are those of the run: the loop comes to try the handler at position \<open>i\<close>
  (its \<^verbatim>\<open>parse_authn_request\<close> is called), and that trial, the three calls in order,
  completes without raising.  Then \<^verbatim>\<open>login_process\<close> returns that handler's response
  context (merged under the \<^verbatim>\<open>idp\<close> entry), no handler after position \<open>i\<close> is
  constructed or called, and each handler before position \<open>i\<close> failed its trial with
  \<^verbatim>\<open>CannotHandleAssertion\<close> or a value error, so that \<open>i\<close> is the first whose trial
  completes.  The registrations after \<open>i\<close> are arbitrary.
\<close>

theorem login_process_first_match:
  assumes "session request ''SAMLRequest'' = Some saml_request"
    and "session request ''RelayState'' = Some relay_state"
    and "get_sp_handlers idp = map Inr before @ Inr handler # after"
    and "ParseAuthnRequest (length before) \<in> set (calls (login_process idp request))"
    and "trial_outcome handler saml_request relay_state = Inr context"
  shows "result (login_process idp request) =
           Inr (Context ([''idp'' \<mapsto> IdP] ++ (map_option Val \<circ> context)))
         \<and> (\<forall>c\<in>set (calls (login_process idp request)).
               \<forall>j. call_position c = Some j \<longrightarrow> j \<le> length before)
         \<and> (\<forall>h\<in>set before. raises caught (trial_outcome h saml_request relay_state))"
proof -
  let ?loop = "handler_loop 0 (get_sp_handlers idp) saml_request relay_state"
  let ?ctx = "Context ([''idp'' \<mapsto> IdP] ++ (map_option Val \<circ> context))"
  have auth: "login_required idp request = None"
  proof (cases "login_required idp request")
    case (Some e)
    with assms(4) show ?thesis by (simp add: login_process_def)
  qed simp
  have earlier: "\<forall>h\<in>set before. raises caught (trial_outcome h saml_request relay_state)"
    using login_process_reaches [OF assms(3) assms(1) assms(2) assms(4)] .
  from handler_loop_first_match [OF earlier assms(5), of after]
  have r: "snd ?loop = Some (Inr ?ctx)"
    and pos: "\<forall>c\<in>set (fst ?loop). \<exists>j. call_position c = Some j \<and> j \<le> length before"
    by (simp_all add: assms(3))
  obtain cs where loop: "?loop = (cs, Some (Inr ?ctx))"
    using r by (cases ?loop) simp
  have "result (login_process idp request) = Inr ?ctx"
    and "calls (login_process idp request) = LoginRequired # cs"
    using auth assms(1,2) loop by (simp_all add: login_process_def)
  then show ?thesis using pos loop earlier by auto
qed

theorem login_process_first_match_witness:
  "session (captured ''sp-b'') ''SAMLRequest'' = Some ''sp-b''
   \<and> session (captured ''sp-b'') ''RelayState'' = Some ''/home''
   \<and> get_sp_handlers three_sp_idp = map Inr [handler_a] @ Inr handler_b # [Inr handler_c]
   \<and> ParseAuthnRequest (length [handler_a])
        \<in> set (calls (login_process three_sp_idp (captured ''sp-b'')))
   \<and> trial_outcome handler_b ''sp-b'' ''/home'' = Inr context_b
   \<and> result (login_process three_sp_idp (captured ''sp-b'')) =
        Inr (Context ([''idp'' \<mapsto> IdP] ++ (map_option Val \<circ> context_b)))
   \<and> calls (login_process three_sp_idp (captured ''sp-b'')) =
        [LoginRequired, Construct 0, ParseAuthnRequest 0, LogException 0,
         Construct 1, ParseAuthnRequest 1, MakeResponse 1, GetResponseContext 1]
   \<and> raises caught (trial_outcome handler_a ''sp-b'' ''/home'')"
proof -
  have h2: "session (captured ''sp-b'') ''SAMLRequest'' = Some ''sp-b''"
    and h3: "session (captured ''sp-b'') ''RelayState'' = Some ''/home''"
    by (simp_all add: captured_request)
  have h4: "get_sp_handlers three_sp_idp = map Inr [handler_a] @ Inr handler_b # [Inr handler_c]"
    by (simp add: three_sp_handlers)
  have c: "calls (login_process three_sp_idp (captured ''sp-b'')) =
        [LoginRequired, Construct 0, ParseAuthnRequest 0, LogException 0,
         Construct 1, ParseAuthnRequest 1, MakeResponse 1, GetResponseContext 1]"
    by (simp add: login_process_def captured_request three_sp_handlers example_trials
        nameid_email)
  have h5: "ParseAuthnRequest (length [handler_a])
              \<in> set (calls (login_process three_sp_idp (captured ''sp-b'')))"
    by (simp add: c)
  have h6: "trial_outcome handler_b ''sp-b'' ''/home'' = Inr context_b"
    by (simp add: trial_outcome_def example_trials nameid_email context_b_def)
  show ?thesis
    using login_process_first_match [OF h2 h3 h4 h5 h6] h2 h3 h4 h5 h6 c by simp
qed

text \<open>
  C2. If the trial of every configured handler raises \<^verbatim>\<open>CannotHandleAssertion\<close> or a
  value error, in particular if there is no handler, \<^verbatim>\<open>login_process\<close> raises
  \<^verbatim>\<open>CannotHandleAssertion\<close> and returns no response context.
\<close>

theorem login_process_no_handler:
  assumes "login_required idp request = None"
    and "session request ''SAMLRequest'' = Some saml_request"
    and "session request ''RelayState'' = Some relay_state"
    and "get_sp_handlers idp = map Inr handlers"
    and "\<forall>h\<in>set handlers. raises caught (trial_outcome h saml_request relay_state)"
  shows "result (login_process idp request) =
           Inl (CannotHandleAssertion
             ''No Service Provider handlers could handle this SAML request'')
         \<and> (\<forall>context. result (login_process idp request) \<noteq> Inr (Context context))"
proof -
  let ?loop = "handler_loop 0 (get_sp_handlers idp) saml_request relay_state"
  have "snd ?loop = None"
    using handler_loop_all_caught [OF assms(5)] by (simp add: assms(4))
  then obtain cs where "?loop = (cs, None)" by (cases ?loop) simp
  then show ?thesis using assms(1-3) by (simp add: login_process_def)
qed

theorem login_process_no_handler_witness:
  "login_required three_sp_idp (captured ''sp-x'') = None
   \<and> session (captured ''sp-x'') ''SAMLRequest'' = Some ''sp-x''
   \<and> session (captured ''sp-x'') ''RelayState'' = Some ''/home''
   \<and> get_sp_handlers three_sp_idp = map Inr [handler_a, handler_b, handler_c]
   \<and> raises caught (trial_outcome handler_a ''sp-x'' ''/home'')
   \<and> raises caught (trial_outcome handler_b ''sp-x'' ''/home'')
   \<and> raises caught (trial_outcome handler_c ''sp-x'' ''/home'')
   \<and> result (login_process three_sp_idp (captured ''sp-x'')) =
        Inl (CannotHandleAssertion
          ''No Service Provider handlers could handle this SAML request'')
   \<and> get_sp_handlers (example_idp None None []) = map Inr []
   \<and> result (login_process (example_idp None None []) (captured ''sp-x'')) =
        Inl (CannotHandleAssertion
          ''No Service Provider handlers could handle this SAML request'')"
proof -
  have h1: "login_required three_sp_idp (captured ''sp-x'') = None"
    and h2: "session (captured ''sp-x'') ''SAMLRequest'' = Some ''sp-x''"
    and h3: "session (captured ''sp-x'') ''RelayState'' = Some ''/home''"
    and h1': "login_required (example_idp None None []) (captured ''sp-x'') = None"
    by (simp_all add: captured_request)
  have h4: "get_sp_handlers three_sp_idp = map Inr [handler_a, handler_b, handler_c]"
    by (simp add: three_sp_handlers)
  have h5: "\<forall>h\<in>set [handler_a, handler_b, handler_c].
              raises caught (trial_outcome h ''sp-x'' ''/home'')"
    by (simp add: trial_outcome_def example_trials raises_def)
  have h4': "get_sp_handlers (example_idp None None []) = map Inr []"
    using example_class_constructs [of None None "[]"] by simp
  have h5': "\<forall>h\<in>set []. raises caught (trial_outcome h ''sp-x'' ''/home'')"
    by simp
  show ?thesis
    using login_process_no_handler [OF h1 h2 h3 h4 h5]
      login_process_no_handler [OF h1' h2 h3 h4' h5'] h1 h2 h3 h4 h5 h4'
    by simp
qed

text \<open>
  C3. An exception \<open>e\<close> raised in the trial of the handler at position \<open>i\<close> is
  matched by the \<^verbatim>\<open>except\<close> clause exactly when it is a \<^verbatim>\<open>CannotHandleAssertion\<close>
  or a \<^verbatim>\<open>ValueError\<close>.  When it is, the exception is logged, the generator is asked
  for the next handler, and the view ends as the loop over the remaining handlers does.
  When it is not, \<^verbatim>\<open>login_process\<close> raises \<open>e\<close> and no handler after position
  \<open>i\<close> is constructed or called.
\<close>

theorem login_process_fallback_exceptions:
  assumes "login_required idp request = None"
    and "session request ''SAMLRequest'' = Some saml_request"
    and "session request ''RelayState'' = Some relay_state"
    and "get_sp_handlers idp = map Inr before @ Inr handler # after"
    and "\<forall>h\<in>set before. raises caught (trial_outcome h saml_request relay_state)"
    and "trial_outcome handler saml_request relay_state = Inl e"
  shows "(caught e \<longleftrightarrow> (\<exists>msg. e = CannotHandleAssertion msg \<or> e = ValueError msg))
       \<and> (caught e \<longrightarrow>
            LogException (length before) \<in> set (calls (login_process idp request))
            \<and> (after \<noteq> [] \<longrightarrow>
                 Construct (Suc (length before)) \<in> set (calls (login_process idp request)))
            \<and> result (login_process idp request) =
                (case snd (handler_loop (Suc (length before)) after saml_request relay_state) of
                   Some r \<Rightarrow> r
                 | None \<Rightarrow> Inl (CannotHandleAssertion
                     ''No Service Provider handlers could handle this SAML request'')))
       \<and> (\<not> caught e \<longrightarrow>
            result (login_process idp request) = Inl e
            \<and> (\<forall>c\<in>set (calls (login_process idp request)).
                  \<forall>j. call_position c = Some j \<longrightarrow> j \<le> length before))"
proof -
  let ?n = "length before"
  let ?loop = "handler_loop 0 (get_sp_handlers idp) saml_request relay_state"
  let ?here = "handler_loop ?n (Inr handler # after) saml_request relay_state"
  let ?next = "handler_loop (Suc ?n) after saml_request relay_state"
  from handler_loop_skip [OF assms(5), of 0 "Inr handler # after"] obtain cs where
    cs: "?loop = (cs @ fst ?here, snd ?here)"
    and pos: "\<forall>c\<in>set cs. \<exists>j. call_position c = Some j \<and> j < ?n"
    by (auto simp: assms(4))
  have view: "result (login_process idp request) =
                (case snd ?here of Some r \<Rightarrow> r
                 | None \<Rightarrow> Inl (CannotHandleAssertion
                     ''No Service Provider handlers could handle this SAML request''))"
    "calls (login_process idp request) = LoginRequired # cs @ fst ?here"
    using assms(1-3) cs by (simp_all add: login_process_def split: option.splits)
  have yes: "caught e \<longrightarrow>
            LogException ?n \<in> set (calls (login_process idp request))
            \<and> (after \<noteq> [] \<longrightarrow> Construct (Suc ?n) \<in> set (calls (login_process idp request)))
            \<and> result (login_process idp request) =
                (case snd ?next of Some r \<Rightarrow> r
                 | None \<Rightarrow> Inl (CannotHandleAssertion
                     ''No Service Provider handlers could handle this SAML request''))"
  proof
    assume c: "caught e"
    note step = handler_loop_caught [OF assms(6) c, of ?n after]
    have "after \<noteq> [] \<longrightarrow> Construct (Suc ?n) \<in> set (fst ?next)"
      using handler_loop_constructs_head [of "Suc ?n" _ _ saml_request relay_state]
      by (cases after) auto
    then show "LogException ?n \<in> set (calls (login_process idp request))
            \<and> (after \<noteq> [] \<longrightarrow> Construct (Suc ?n) \<in> set (calls (login_process idp request)))
            \<and> result (login_process idp request) =
                (case snd ?next of Some r \<Rightarrow> r
                 | None \<Rightarrow> Inl (CannotHandleAssertion
                     ''No Service Provider handlers could handle this SAML request''))"
      using view step by simp
  qed
  have no: "\<not> caught e \<longrightarrow>
            result (login_process idp request) = Inl e
            \<and> (\<forall>c\<in>set (calls (login_process idp request)).
                  \<forall>j. call_position c = Some j \<longrightarrow> j \<le> ?n)"
  proof
    assume c: "\<not> caught e"
    note step = handler_loop_uncaught [OF assms(6) c, of ?n after]
    have "\<forall>c\<in>set (cs @ Construct ?n # fst (trial ?n handler saml_request relay_state)).
            \<forall>j. call_position c = Some j \<longrightarrow> j \<le> ?n"
      using pos trial_positions [of _ ?n handler saml_request relay_state] by fastforce
    then show "result (login_process idp request) = Inl e
            \<and> (\<forall>c\<in>set (calls (login_process idp request)).
                  \<forall>j. call_position c = Some j \<longrightarrow> j \<le> ?n)"
      using view step by simp
  qed
  show ?thesis using caught_iff [of e] yes no by blast
qed

theorem login_process_fallback_exceptions_witness:
  "login_required three_sp_idp (captured ''sp-b'') = None
   \<and> session (captured ''sp-b'') ''SAMLRequest'' = Some ''sp-b''
   \<and> session (captured ''sp-b'') ''RelayState'' = Some ''/home''
   \<and> get_sp_handlers three_sp_idp = map Inr [] @ Inr handler_a # [Inr handler_b, Inr handler_c]
   \<and> trial_outcome handler_a ''sp-b'' ''/home'' = Inl (CannotHandleAssertion ''unknown issuer'')
   \<and> caught (CannotHandleAssertion ''unknown issuer'')
   \<and> LogException 0 \<in> set (calls (login_process three_sp_idp (captured ''sp-b'')))
   \<and> Construct 1 \<in> set (calls (login_process three_sp_idp (captured ''sp-b'')))
   \<and> result (login_process three_sp_idp (captured ''sp-b'')) =
        Inr (Context ([''idp'' \<mapsto> IdP] ++ (map_option Val \<circ> context_b)))
   \<and> login_required strict_idp (captured ''sp-b'') = None
   \<and> get_sp_handlers strict_idp = map Inr [] @ Inr handler_b_persistent # [Inr handler_b]
   \<and> trial_outcome handler_b_persistent ''sp-b'' ''/home'' =
        Inl (NotImplementedError
         ''Can't fetch attribute urn:oasis:names:tc:SAML:2.0:nameid-format:persistent from user'')
   \<and> \<not> caught (NotImplementedError
         ''Can't fetch attribute urn:oasis:names:tc:SAML:2.0:nameid-format:persistent from user'')
   \<and> result (login_process strict_idp (captured ''sp-b'')) =
        Inl (NotImplementedError
         ''Can't fetch attribute urn:oasis:names:tc:SAML:2.0:nameid-format:persistent from user'')
   \<and> calls (login_process strict_idp (captured ''sp-b'')) =
        [LoginRequired, Construct 0, ParseAuthnRequest 0, MakeResponse 0]"
proof -
  have h1: "login_required three_sp_idp (captured ''sp-b'') = None"
    and h2: "session (captured ''sp-b'') ''SAMLRequest'' = Some ''sp-b''"
    and h3: "session (captured ''sp-b'') ''RelayState'' = Some ''/home''"
    and g1: "login_required strict_idp (captured ''sp-b'') = None"
    by (simp_all add: captured_request)
  have h4: "get_sp_handlers three_sp_idp =
              map Inr [] @ Inr handler_a # [Inr handler_b, Inr handler_c]"
    by (simp add: three_sp_handlers)
  have g4: "get_sp_handlers strict_idp = map Inr [] @ Inr handler_b_persistent # [Inr handler_b]"
    by (simp add: strict_handlers)
  have h5: "\<forall>h\<in>set []. raises caught (trial_outcome h ''sp-b'' ''/home'')"
    by simp
  have h6: "trial_outcome handler_a ''sp-b'' ''/home'' =
              Inl (CannotHandleAssertion ''unknown issuer'')"
    by (simp add: trial_outcome_def example_trials)
  have g6: "trial_outcome handler_b_persistent ''sp-b'' ''/home'' =
        Inl (NotImplementedError
         ''Can't fetch attribute urn:oasis:names:tc:SAML:2.0:nameid-format:persistent from user'')"
    by (simp add: trial_outcome_def example_trials)
  have next_loop: "snd (handler_loop (Suc 0) [Inr handler_b, Inr handler_c] ''sp-b'' ''/home'') =
          Some (Inr (Context ([''idp'' \<mapsto> IdP] ++ (map_option Val \<circ> context_b))))"
    by (simp add: example_trials context_b_def)
  have c: "calls (login_process strict_idp (captured ''sp-b'')) =
        [LoginRequired, Construct 0, ParseAuthnRequest 0, MakeResponse 0]"
    by (simp add: login_process_def captured_request strict_handlers example_trials)
  show ?thesis
    using login_process_fallback_exceptions [OF h1 h2 h3 h4 h5 h6]
      login_process_fallback_exceptions [OF g1 h2 h3 g4 h5 g6]
      h1 h2 h3 h4 h6 g1 g4 g6 next_loop c
    by simp
qed


section \<open>Session state between the two login steps\<close>

text \<open>
  C7. When the \<^verbatim>\<open>SAMLRequest\<close> parameter is missing or empty, \<^verbatim>\<open>login_begin\<close>
  returns the error text, leaves the session as it was and calls no handler.  When it is
  not empty, \<^verbatim>\<open>login_begin\<close> stores \<^verbatim>\<open>SAMLRequest\<close> and \<^verbatim>\<open>RelayState\<close> in the
  session and returns a redirect to the route of the process step.
\<close>

theorem login_begin_captures_request:
  "(params request ''SAMLRequest'' = None \<or> params request ''SAMLRequest'' = Some [] \<longrightarrow>
      (login_begin request :: 'v outcome) =
        \<lparr>result = Inr (Text ''SAMLRequest is missing''),
         session_after = session request,
         calls = []\<rparr>)
   \<and> (\<forall>saml_request. params request ''SAMLRequest'' = Some saml_request \<and> saml_request \<noteq> [] \<longrightarrow>
      (login_begin request :: 'v outcome) =
        \<lparr>result = Inr (HTTPFound (route_url request ''pyramid_saml2_idp_login_process'' [])),
         session_after =
           (session request)
             (''SAMLRequest'' \<mapsto> saml_request,
              ''RelayState'' \<mapsto> (case params request ''RelayState'' of None \<Rightarrow> [] | Some r \<Rightarrow> r)),
         calls = []\<rparr>)"
  by (auto simp: login_begin_def)

theorem login_begin_captures_request_witness:
  "params (begin_request Map.empty Map.empty) ''SAMLRequest'' = None
   \<and> result (login_begin (begin_request Map.empty Map.empty) :: string outcome) =
        Inr (Text ''SAMLRequest is missing'')
   \<and> session_after (login_begin (begin_request Map.empty Map.empty) :: string outcome) =
        Map.empty
   \<and> params (begin_request [''SAMLRequest'' \<mapsto> ''sp-b'', ''RelayState'' \<mapsto> ''/home''] Map.empty)
        ''SAMLRequest'' = Some ''sp-b''
   \<and> result (login_begin
         (begin_request [''SAMLRequest'' \<mapsto> ''sp-b'', ''RelayState'' \<mapsto> ''/home''] Map.empty)
           :: string outcome) =
        Inr (HTTPFound ''http://localhost:8000/saml/login/process/'')
   \<and> session_after (login_begin
         (begin_request [''SAMLRequest'' \<mapsto> ''sp-b'', ''RelayState'' \<mapsto> ''/home''] Map.empty)
           :: string outcome) =
        [''SAMLRequest'' \<mapsto> ''sp-b'', ''RelayState'' \<mapsto> ''/home'']"
  using login_begin_captures_request
      [of "begin_request Map.empty Map.empty", where ?'v = string]
    login_begin_captures_request
      [of "begin_request [''SAMLRequest'' \<mapsto> ''sp-b'', ''RelayState'' \<mapsto> ''/home''] Map.empty",
       where ?'v = string]
  by (simp add: begin_request_def example_request_def route_pattern_def)

text \<open>
  C8. When the session lacks \<^verbatim>\<open>SAMLRequest\<close> or lacks \<^verbatim>\<open>RelayState\<close> and
  \<^verbatim>\<open>login_required\<close> has returned, \<^verbatim>\<open>login_process\<close> returns the error text; the
  only call it has made is \<^verbatim>\<open>login_required\<close>: no handler is constructed or tried.
\<close>

theorem login_process_missing_session_state:
  assumes "login_required idp request = None"
    and "session request ''SAMLRequest'' = None \<or> session request ''RelayState'' = None"
  shows "result (login_process idp request) =
           Inr (Text (if session request ''SAMLRequest'' = None
                      then ''SAMLRequest is misssing'' else ''RelayState is missing''))
         \<and> calls (login_process idp request) = [LoginRequired]
         \<and> session_after (login_process idp request) = session request"
  using assms by (auto simp: login_process_def split: option.splits)

theorem login_process_missing_session_state_witness:
  "login_required three_sp_idp
     (process_request [''user'' \<mapsto> ''alex'', ''SAMLRequest'' \<mapsto> ''sp-b'']) = None
   \<and> session (process_request [''user'' \<mapsto> ''alex'', ''SAMLRequest'' \<mapsto> ''sp-b''])
        ''RelayState'' = None
   \<and> result (login_process three_sp_idp
        (process_request [''user'' \<mapsto> ''alex'', ''SAMLRequest'' \<mapsto> ''sp-b''])) =
        Inr (Text ''RelayState is missing'')
   \<and> calls (login_process three_sp_idp
        (process_request [''user'' \<mapsto> ''alex'', ''SAMLRequest'' \<mapsto> ''sp-b''])) =
        [LoginRequired]
   \<and> login_required three_sp_idp (process_request [''user'' \<mapsto> ''alex'']) = None
   \<and> session (process_request [''user'' \<mapsto> ''alex'']) ''SAMLRequest'' = None
   \<and> result (login_process three_sp_idp (process_request [''user'' \<mapsto> ''alex''])) =
        Inr (Text ''SAMLRequest is misssing'')
   \<and> calls (login_process three_sp_idp (process_request [''user'' \<mapsto> ''alex''])) = [LoginRequired]"
proof -
  let ?r = "process_request [''user'' \<mapsto> ''alex'', ''SAMLRequest'' \<mapsto> ''sp-b'']"
  have h1: "login_required three_sp_idp ?r = None"
    by (simp add: three_sp_idp_def example_idp_def example_login_required_def
        is_user_logged_in_def users_def process_request_def example_request_def)
  have h2: "session ?r ''SAMLRequest'' = None \<or> session ?r ''RelayState'' = None"
    by (simp add: process_request_def example_request_def)
  have g1: "login_required three_sp_idp (process_request [''user'' \<mapsto> ''alex'']) = None"
    by (simp add: logged_in)
  have g2: "session (process_request [''user'' \<mapsto> ''alex'']) ''SAMLRequest'' = None
            \<or> session (process_request [''user'' \<mapsto> ''alex'']) ''RelayState'' = None"
    by (simp add: logged_in)
  show ?thesis
    using login_process_missing_session_state [OF h1 h2]
      login_process_missing_session_state [OF g1 g2] h1 g1
    by (simp add: process_request_def example_request_def)
qed

text \<open>
  C10. A successful \<^verbatim>\<open>login_begin\<close> stores \<^verbatim>\<open>RelayState\<close> as the value of the
  parameter, or as the empty string when the parameter is absent, so that both keys are
  present afterwards; and \<^verbatim>\<open>login_process\<close> does not return
  \<^verbatim>\<open>"RelayState is missing"\<close> on any session that still holds what that step stored.
\<close>

theorem login_begin_relay_state_present:
  assumes "params request ''SAMLRequest'' = Some saml_request" and "saml_request \<noteq> []"
  shows "session_after (login_begin request :: 'v outcome) ''RelayState'' =
           Some (case params request ''RelayState'' of None \<Rightarrow> [] | Some r \<Rightarrow> r)
         \<and> session_after (login_begin request :: 'v outcome) ''SAMLRequest'' = Some saml_request
         \<and> (\<forall>(idp :: ('cert, 'key, 'ov, 'q, 'p, 'w) identity_provider) request'.
               session_after (login_begin request :: 'v outcome) \<subseteq>\<^sub>m session request' \<longrightarrow>
               result (login_process idp request') \<noteq> Inr (Text ''RelayState is missing''))"
proof -
  have s: "session_after (login_begin request :: 'v outcome) ''RelayState'' =
           Some (case params request ''RelayState'' of None \<Rightarrow> [] | Some r \<Rightarrow> r)"
    "session_after (login_begin request :: 'v outcome) ''SAMLRequest'' = Some saml_request"
    using assms by (simp_all add: login_begin_def)
  have "result (login_process idp request') \<noteq> Inr (Text ''RelayState is missing'')"
    if le: "session_after (login_begin request :: 'v outcome) \<subseteq>\<^sub>m session request'"
    for idp :: "('cert, 'key, 'ov, 'q, 'p, 'w) identity_provider" and request'
  proof -
    have "session request' ''RelayState'' \<noteq> None"
      using le s(1) by (auto simp: map_le_def dom_def)
    then show ?thesis
      using login_process_relay_state_branch [of idp request'] by auto
  qed
  then show ?thesis using s by blast
qed

theorem login_begin_relay_state_present_witness:
  "params (begin_request [''SAMLRequest'' \<mapsto> ''sp-b''] Map.empty) ''SAMLRequest'' = Some ''sp-b''
   \<and> ''sp-b'' \<noteq> []
   \<and> session_after (login_begin (begin_request [''SAMLRequest'' \<mapsto> ''sp-b''] Map.empty)
        :: string outcome) ''RelayState'' = Some []
   \<and> session_after (login_begin (begin_request [''SAMLRequest'' \<mapsto> ''sp-b''] Map.empty)
        :: string outcome) ''SAMLRequest'' = Some ''sp-b''
   \<and> result (login_process three_sp_idp
        (process_request
           [''SAMLRequest'' \<mapsto> ''sp-b'', ''RelayState'' \<mapsto> [], ''user'' \<mapsto> ''alex''])) \<noteq>
        Inr (Text ''RelayState is missing'')"
proof -
  let ?r = "begin_request [''SAMLRequest'' \<mapsto> ''sp-b''] Map.empty"
  let ?r' = "process_request
           [''SAMLRequest'' \<mapsto> ''sp-b'', ''RelayState'' \<mapsto> [], ''user'' \<mapsto> ''alex'']"
  have h1: "params ?r ''SAMLRequest'' = Some ''sp-b''" by (simp add: begin_request_def process_request_def example_request_def)
  have h2: "''sp-b'' \<noteq> []" by simp
  note t = login_begin_relay_state_present
    [OF h1 h2, where ?'v = string and ?'cert = string and ?'key = string and ?'ov = string
       and ?'q = string and ?'p = string and ?'w = string]
  have le: "session_after (login_begin ?r :: string outcome) \<subseteq>\<^sub>m session ?r'"
    by (simp add: login_begin_def begin_request_def process_request_def example_request_def map_le_def)
  show ?thesis using t le h1 by (auto simp: begin_request_def process_request_def example_request_def)
qed


section \<open>Logout\<close>

text \<open>
  C9. The view calls \<^verbatim>\<open>login_required\<close> and \<^verbatim>\<open>logout\<close>, and redirects to a
  supplied target that is not empty and that \<^verbatim>\<open>is_valid_redirect\<close> accepts; but where
  it should render the logged-out page the source reads the unbound name
  \<^verbatim>\<open>context\<close>.  For a logged-in user and a request without a redirect target, or with
  one no handler accepts, \<^verbatim>\<open>logout\<close> raises \<^verbatim>\<open>NameError\<close>.
\<close>

theorem logout_without_redirect_raises_NameError:
  "result (logout three_sp_idp (logout_request Map.empty)) =
     Inl (NameError ''name 'context' is not defined'')
   \<and> calls (logout three_sp_idp (logout_request Map.empty)) = [LoginRequired, Logout]
   \<and> session_after (logout three_sp_idp (logout_request Map.empty)) = Map.empty
   \<and> result (logout three_sp_idp
        (logout_request [''RelayState'' \<mapsto> ''https://elsewhere.example/'']))
      = Inl (NameError ''name 'context' is not defined'')
   \<and> result (logout three_sp_idp
        (logout_request [''RelayState'' \<mapsto> ''https://b.example/acs/'']))
      = Inr (HTTPFound ''https://b.example/acs/'')"
  by (simp add: logout_def logged_in is_valid_redirect_def three_sp_handlers
      handler_a_def handler_b_def handler_c_def example_handler_def)


end
